theory Spec2Isabelle
  imports
    Main
    "HOL-Library.Char_ord"
    "HOL-Library.List_Lexorder"
    "HOL-Library.Sublist"
    "HOL-Library.AList"
    "HOL-Library.Multiset"
begin

section \<open>Applying the Hasura metadata: \<^verbatim>\<open>migrations/hasura.go\<close>\<close>

text \<open>
  The package has two functions. \<^verbatim>\<open>postMetadata\<close> serialises one metadata operation,
  posts it to \<^verbatim>\<open><baseURL>/metadata\<close> and classifies the response; \<^verbatim>\<open>ApplyHasuraMetadata\<close>
  calls it five times in a fixed order. Both are embedded below as functions that pass a
  \<open>world\<close> along (the requests handed to \<^verbatim>\<open>client.Do\<close> so far and the entries given to
  the logger), and that return a Go \<^verbatim>\<open>error\<close> or a panic as a value.

  What belongs to the Go standard library or to the remote service is not part of the
  package and is a parameter of the model, collected in the record \<open>env\<close>: how
  \<^verbatim>\<open>encoding/json\<close> writes a string literal, what \<^verbatim>\<open>json.Unmarshal\<close> makes of a response
  body, whether \<^verbatim>\<open>http.NewRequestWithContext\<close> accepts the URL, and what \<^verbatim>\<open>client.Do\<close>
  returns. Every theorem that is stated for all \<open>env\<close> holds whatever these do.
\<close>

subsection \<open>Go values: strings, errors, panics\<close>

text \<open>
  A Go \<^verbatim>\<open>string\<close> and a \<^verbatim>\<open>[]byte\<close> are byte sequences: \<open>string\<close>. An \<^verbatim>\<open>error\<close> is \<^verbatim>\<open>nil\<close>
  (\<open>None\<close>) or a value with a message (\<open>Some msg\<close>); \<^verbatim>\<open>fmt.Errorf("...: %w", err)\<close>
  puts the message of \<^verbatim>\<open>err\<close> after the prefix. A run of a function either returns
  (\<open>Inr\<close>) or panics (\<open>Inl\<close>); the only panic the package can raise itself is the
  dereference of a nil pointer.
\<close>

type_synonym error = "string option"

datatype panic = NilPointerDereference

type_synonym 'a exec = "panic + 'a"

text \<open>The verb \<^verbatim>\<open>%d\<close> of \<^verbatim>\<open>fmt\<close> on an \<^verbatim>\<open>int\<close>: decimal digits, with a sign when negative.\<close>

fun digits :: "nat \<Rightarrow> string" where
  "digits n =
     (if n < 10 then [''0123456789'' ! n]
      else digits (n div 10) @ [''0123456789'' ! (n mod 10)])"

definition fmt_d :: "int \<Rightarrow> string" where
  "fmt_d i = (if i < 0 then CHR ''-'' # digits (nat (- i)) else digits (nat i))"

subsection \<open>The operation model (lines 64-137)\<close>

text \<open>
  Each Go struct is a record with the fields in the order of the declaration. A
  \<^verbatim>\<open>[]string\<close> and a \<^verbatim>\<open>map[string]string\<close> can be nil (\<open>None\<close>). A non-nil map is the list
  of its entries in the order in which an iteration happens to visit them, which Go leaves
  open; its keys are distinct.
\<close>

record Table =
  Schema :: string
  Name :: string

record CustomRootFields =
  Select :: string
  SelectByPk :: string
  SelectAggregate :: string
  Insert :: string
  InsertOne :: string
  Update :: string
  UpdateByPk :: string
  Delete :: string
  DeleteByPk :: string

record Configuration =
  CustomName :: string
  CustomRootFields :: CustomRootFields
  CustomColumnNames :: "(string \<times> string) list option"

record PgTrackTableArgs =
  Source :: string
  Table :: Table
  Configuration :: Configuration

record TrackTable =
  Type :: string
  Args :: PgTrackTableArgs

record CreateObjectRelationshipUsing =
  ForeignKeyConstraintOn :: "string list option"

record CreateObjectRelationshipArgs =
  Table :: Table
  Name :: string
  Source :: string
  Using :: CreateObjectRelationshipUsing

record CreateObjectRelationship =
  Type :: string
  Args :: CreateObjectRelationshipArgs

record ForeignKeyConstraintOn =
  Table :: Table
  Columns :: "string list option"

record CreateArrayRelationshipUsing =
  ForeignKeyConstraintOn :: ForeignKeyConstraintOn

record CreateArrayRelationshipArgs =
  Table :: Table
  Name :: string
  Source :: string
  Using :: CreateArrayRelationshipUsing

record CreateArrayRelationship =
  Type :: string
  Args :: CreateArrayRelationshipArgs

text \<open>
  \<^verbatim>\<open>postMetadata\<close> takes \<^verbatim>\<open>data interface{}\<close>; the package passes values of three struct
  types, which are the constructors of \<open>data\<close>.
\<close>

datatype data =
  OfTrackTable TrackTable
| OfCreateObjectRelationship CreateObjectRelationship
| OfCreateArrayRelationship CreateArrayRelationship

subsection \<open>\<^verbatim>\<open>json.Marshal\<close> on the operation model\<close>

text \<open>
  \<^verbatim>\<open>encoding/json\<close> writes a struct as an object whose members are the fields in declaration
  order under the names of their \<^verbatim>\<open>json\<close> tags, a slice as an array, a nil slice or map as
  \<^verbatim>\<open>null\<close>, and a map as an object whose members are sorted by key (byte-wise), with no
  white space. How a string is written as a literal (quoting and escaping) is the
  parameter \<open>enc\<close>.
\<close>

fun comma_sep :: "string list \<Rightarrow> string" where
  "comma_sep [] = []"
| "comma_sep [x] = x"
| "comma_sep (x # y # ys) = x @ '','' @ comma_sep (y # ys)"

definition json_member :: "string \<Rightarrow> string \<Rightarrow> string" where
  \<open>json_member tag v = ''"'' @ tag @ ''":'' @ v\<close>

definition json_struct :: "(string \<times> string) list \<Rightarrow> string" where
  "json_struct ms = ''{'' @ comma_sep (map (\<lambda>(tag, v). json_member tag v) ms) @ ''}''"

definition marshal_strings :: "(string \<Rightarrow> string) \<Rightarrow> string list option \<Rightarrow> string" where
  "marshal_strings enc s =
     (case s of
        None \<Rightarrow> ''null''
      | Some xs \<Rightarrow> ''['' @ comma_sep (map enc xs) @ '']'')"

definition marshal_map :: "(string \<Rightarrow> string) \<Rightarrow> (string \<times> string) list option \<Rightarrow> string" where
  "marshal_map enc m =
     (case m of
        None \<Rightarrow> ''null''
      | Some kvs \<Rightarrow>
          ''{'' @ comma_sep (map (\<lambda>(k, v). enc k @ '':'' @ enc v) (sort_key fst kvs)) @ ''}'')"

definition marshal_Table :: "(string \<Rightarrow> string) \<Rightarrow> Table \<Rightarrow> string" where
  "marshal_Table enc t =
     json_struct [(''schema'', enc (Schema t)), (''name'', enc (Table.Name t))]"

definition marshal_CustomRootFields :: "(string \<Rightarrow> string) \<Rightarrow> CustomRootFields \<Rightarrow> string" where
  "marshal_CustomRootFields enc r =
     json_struct
       [(''select'', enc (Select r)),
        (''select_by_pk'', enc (SelectByPk r)),
        (''select_aggregate'', enc (SelectAggregate r)),
        (''insert'', enc (Insert r)),
        (''insert_one'', enc (InsertOne r)),
        (''update'', enc (Update r)),
        (''update_by_pk'', enc (UpdateByPk r)),
        (''delete'', enc (Delete r)),
        (''delete_by_pk'', enc (DeleteByPk r))]"

definition marshal_Configuration :: "(string \<Rightarrow> string) \<Rightarrow> Configuration \<Rightarrow> string" where
  "marshal_Configuration enc c =
     json_struct
       [(''custom_name'', enc (CustomName c)),
        (''custom_root_fields'', marshal_CustomRootFields enc (Configuration.CustomRootFields c)),
        (''custom_column_names'', marshal_map enc (CustomColumnNames c))]"

definition marshal_PgTrackTableArgs :: "(string \<Rightarrow> string) \<Rightarrow> PgTrackTableArgs \<Rightarrow> string" where
  "marshal_PgTrackTableArgs enc a =
     json_struct
       [(''source'', enc (PgTrackTableArgs.Source a)),
        (''table'', marshal_Table enc (PgTrackTableArgs.Table a)),
        (''configuration'', marshal_Configuration enc (PgTrackTableArgs.Configuration a))]"

definition marshal_TrackTable :: "(string \<Rightarrow> string) \<Rightarrow> TrackTable \<Rightarrow> string" where
  "marshal_TrackTable enc t =
     json_struct
       [(''type'', enc (TrackTable.Type t)),
        (''args'', marshal_PgTrackTableArgs enc (TrackTable.Args t))]"

definition marshal_CreateObjectRelationshipUsing ::
    "(string \<Rightarrow> string) \<Rightarrow> CreateObjectRelationshipUsing \<Rightarrow> string" where
  "marshal_CreateObjectRelationshipUsing enc u =
     json_struct
       [(''foreign_key_constraint_on'',
         marshal_strings enc (CreateObjectRelationshipUsing.ForeignKeyConstraintOn u))]"

definition marshal_CreateObjectRelationshipArgs ::
    "(string \<Rightarrow> string) \<Rightarrow> CreateObjectRelationshipArgs \<Rightarrow> string" where
  "marshal_CreateObjectRelationshipArgs enc a =
     json_struct
       [(''table'', marshal_Table enc (CreateObjectRelationshipArgs.Table a)),
        (''name'', enc (CreateObjectRelationshipArgs.Name a)),
        (''source'', enc (CreateObjectRelationshipArgs.Source a)),
        (''using'', marshal_CreateObjectRelationshipUsing enc (CreateObjectRelationshipArgs.Using a))]"

definition marshal_CreateObjectRelationship ::
    "(string \<Rightarrow> string) \<Rightarrow> CreateObjectRelationship \<Rightarrow> string" where
  "marshal_CreateObjectRelationship enc r =
     json_struct
       [(''type'', enc (CreateObjectRelationship.Type r)),
        (''args'', marshal_CreateObjectRelationshipArgs enc (CreateObjectRelationship.Args r))]"

definition marshal_ForeignKeyConstraintOn ::
    "(string \<Rightarrow> string) \<Rightarrow> ForeignKeyConstraintOn \<Rightarrow> string" where
  "marshal_ForeignKeyConstraintOn enc f =
     json_struct
       [(''table'', marshal_Table enc (ForeignKeyConstraintOn.Table f)),
        (''columns'', marshal_strings enc (Columns f))]"

definition marshal_CreateArrayRelationshipUsing ::
    "(string \<Rightarrow> string) \<Rightarrow> CreateArrayRelationshipUsing \<Rightarrow> string" where
  "marshal_CreateArrayRelationshipUsing enc u =
     json_struct
       [(''foreign_key_constraint_on'',
         marshal_ForeignKeyConstraintOn enc (CreateArrayRelationshipUsing.ForeignKeyConstraintOn u))]"

definition marshal_CreateArrayRelationshipArgs ::
    "(string \<Rightarrow> string) \<Rightarrow> CreateArrayRelationshipArgs \<Rightarrow> string" where
  "marshal_CreateArrayRelationshipArgs enc a =
     json_struct
       [(''table'', marshal_Table enc (CreateArrayRelationshipArgs.Table a)),
        (''name'', enc (CreateArrayRelationshipArgs.Name a)),
        (''source'', enc (CreateArrayRelationshipArgs.Source a)),
        (''using'', marshal_CreateArrayRelationshipUsing enc (CreateArrayRelationshipArgs.Using a))]"

definition marshal_CreateArrayRelationship ::
    "(string \<Rightarrow> string) \<Rightarrow> CreateArrayRelationship \<Rightarrow> string" where
  "marshal_CreateArrayRelationship enc r =
     json_struct
       [(''type'', enc (CreateArrayRelationship.Type r)),
        (''args'', marshal_CreateArrayRelationshipArgs enc (CreateArrayRelationship.Args r))]"

text \<open>
  \<^verbatim>\<open>json.Marshal(data)\<close> returns the bytes and an error. On these three types the encoder
  has no failing case, so the result is always the right summand; the caller's check of the
  error (lines 31-33) is kept in \<open>postMetadata\<close> below.
\<close>

definition encode_data :: "(string \<Rightarrow> string) \<Rightarrow> data \<Rightarrow> string" where
  "encode_data enc d =
     (case d of
        OfTrackTable t \<Rightarrow> marshal_TrackTable enc t
      | OfCreateObjectRelationship r \<Rightarrow> marshal_CreateObjectRelationship enc r
      | OfCreateArrayRelationship r \<Rightarrow> marshal_CreateArrayRelationship enc r)"

definition json_Marshal :: "(string \<Rightarrow> string) \<Rightarrow> data \<Rightarrow> string + string" where
  "json_Marshal enc d = Inr (encode_data enc d)"

subsection \<open>The collaborators: HTTP client, JSON decoder, logger\<close>

text \<open>
  A request as \<^verbatim>\<open>postMetadata\<close> builds it, the client it is sent through (only the field
  that the package sets), and the part of a response that the package reads. \<open>Header\<close>
  holds the fields under the names that the package passes to \<^verbatim>\<open>Header.Set\<close>, in the order
  of the calls. \<open>Body\<close> of a response is what \<^verbatim>\<open>io.ReadAll(resp.Body)\<close> hands over (line 51 drops its error, so a
  body cut short by a read failure arrives as the bytes read so far). \<^verbatim>\<open>time.Duration\<close>
  counts nanoseconds.
\<close>

record request =
  Method :: string
  URL :: string
  Header :: "(string \<times> string) list"
  Body :: string

record client =
  Timeout :: int

record response =
  StatusCode :: int
  Body :: string

text \<open>Lines 19-23: the error body of the remote API.\<close>

record hasuraErrResponse =
  Path :: string
  Error :: string
  Code :: string

text \<open>
  \<^verbatim>\<open>json.Unmarshal(b, &errResponse)\<close> with \<^verbatim>\<open>errResponse\<close> of type \<^verbatim>\<open>*hasuraErrResponse\<close>
  has three outcomes: it returns an error; it returns nil and leaves the pointer nil,
  which is what \<^verbatim>\<open>encoding/json\<close> does with the JSON literal \<^verbatim>\<open>null\<close>; or it returns nil
  and the pointer refers to a decoded struct.
\<close>

datatype unmarshalled =
  UnmarshalError string
| NilPointer
| Pointer hasuraErrResponse

record env =
  json_encodeString :: "string \<Rightarrow> string"
  json_Unmarshal :: "string \<Rightarrow> unmarshalled"
  NewRequest_error :: "string \<Rightarrow> string option"
  client_Do :: "(client \<times> request) list \<Rightarrow> client \<Rightarrow> request \<Rightarrow> string + response"

text \<open>
  \<open>NewRequest_error env url\<close> is the error with which \<^verbatim>\<open>http.NewRequestWithContext\<close>
  rejects \<open>url\<close> (the method \<^verbatim>\<open>POST\<close> and the context are fixed and valid), \<open>None\<close> when
  it accepts it. \<open>client_Do env h c r\<close> is the result of sending \<open>r\<close> through \<open>c\<close> after
  the requests \<open>h\<close>: a transport error, which includes the client's timeout, or a response.
  The logger is a sink of entries; the levels are those of logrus, and the
  \<^verbatim>\<open>*logrus.Logger\<close> that \<^verbatim>\<open>ApplyHasuraMetadata\<close> receives is taken to be a valid one.
\<close>

datatype Level = PanicLevel | FatalLevel | ErrorLevel | WarnLevel | InfoLevel | DebugLevel | TraceLevel

record world =
  requests :: "(client \<times> request) list"
  entries :: "(Level \<times> string) list"

definition logger_Warnf :: "string \<Rightarrow> world \<Rightarrow> world" where
  "logger_Warnf msg w = w\<lparr>entries := entries w @ [(WarnLevel, msg)]\<rparr>"

definition http_NewRequestWithContext :: "env \<Rightarrow> string \<Rightarrow> string \<Rightarrow> string \<Rightarrow> string + request" where
  "http_NewRequestWithContext env method url body =
     (case NewRequest_error env url of
        Some err \<Rightarrow> Inl err
      | None \<Rightarrow> Inr \<lparr>Method = method, URL = url, Header = [], request.Body = body\<rparr>)"

definition Header_Set :: "string \<Rightarrow> string \<Rightarrow> request \<Rightarrow> request" where
  "Header_Set key v req = req\<lparr>Header := AList.update key v (Header req)\<rparr>"

subsection \<open>\<^verbatim>\<open>postMetadata\<close> (lines 15-62)\<close>

definition timeout :: int where
  "timeout = 10"

definition time_Second :: int where
  "time_Second = 1000000000"

text \<open>
  Lines 49-61, what \<^verbatim>\<open>postMetadata\<close> does with the response. \<^verbatim>\<open>errResponse.Code\<close> on
  line 55 reads through the pointer that \<^verbatim>\<open>json.Unmarshal\<close> left; when that pointer is nil
  the read panics.
\<close>

definition postMetadata_response :: "env \<Rightarrow> response \<Rightarrow> error exec" where
  "postMetadata_response env resp =
     (if StatusCode resp \<noteq> 200 then
        (case json_Unmarshal env (response.Body resp) of
           UnmarshalError err \<Rightarrow>
             Inr (Some (''status_code: '' @ fmt_d (StatusCode resp) @
                        ''\<newline>response: '' @ response.Body resp))
         | NilPointer \<Rightarrow> Inl NilPointerDereference
         | Pointer errResponse \<Rightarrow>
             if Code errResponse = ''already-tracked'' \<or> Code errResponse = ''already-exists''
             then Inr None
             else Inr (Some (''status_code: '' @ fmt_d (StatusCode resp) @
                             ''\<newline>response: '' @ response.Body resp)))
      else Inr None)"

definition postMetadata :: "env \<Rightarrow> string \<Rightarrow> string \<Rightarrow> data \<Rightarrow> world \<Rightarrow> error exec \<times> world" where
  "postMetadata env baseURL hasuraSecret d w =
     (let client = \<lparr>Timeout = time_Second * timeout\<rparr> in
      case json_Marshal (json_encodeString env) d of
        Inl err \<Rightarrow> (Inr (Some (''problem marshalling data: '' @ err)), w)
      | Inr b \<Rightarrow>
          (case http_NewRequestWithContext env ''POST'' (baseURL @ ''/metadata'') b of
             Inl err \<Rightarrow> (Inr (Some (''problem creating request: '' @ err)), w)
           | Inr req0 \<Rightarrow>
               (let req = Header_Set ''X-Hasura-admin-secret'' hasuraSecret
                            (Header_Set ''Content-Type'' ''application/json; charset=UTF-8'' req0);
                    w' = w\<lparr>requests := requests w @ [(client, req)]\<rparr>
                in case client_Do env (requests w) client req of
                     Inl err \<Rightarrow> (Inr (Some (''problem executing request: '' @ err)), w')
                   | Inr resp \<Rightarrow> (postMetadata_response env resp, w'))))"

subsection \<open>\<^verbatim>\<open>ApplyHasuraMetadata\<close> (lines 140-286)\<close>

definition bucketsTable :: TrackTable where
  "bucketsTable =
     \<lparr>TrackTable.Type = ''pg_track_table'',
      TrackTable.Args =
        \<lparr>PgTrackTableArgs.Source = ''default'',
         PgTrackTableArgs.Table = \<lparr>Schema = ''storage'', Table.Name = ''buckets''\<rparr>,
         PgTrackTableArgs.Configuration =
           \<lparr>CustomName = ''buckets'',
            Configuration.CustomRootFields =
              \<lparr>Select = ''buckets'',
               SelectByPk = ''bucket'',
               SelectAggregate = ''bucketsAggregate'',
               Insert = ''insertBuckets'',
               InsertOne = ''insertBucket'',
               Update = ''updateBuckets'',
               UpdateByPk = ''updateBucket'',
               Delete = ''deleteBuckets'',
               DeleteByPk = ''deleteBucket''\<rparr>,
            CustomColumnNames = Some
              [(''id'', ''id''),
               (''created_at'', ''createdAt''),
               (''updated_at'', ''updatedAt''),
               (''download_expiration'', ''downloadExpiration''),
               (''min_upload_file_size'', ''minUploadFileSize''),
               (''max_upload_file_size'', ''maxUploadFileSize''),
               (''cache_control'', ''cacheControl''),
               (''presigned_urls_enabled'', ''presignedUrlsEnabled'')]\<rparr>\<rparr>\<rparr>"

definition filesTable :: TrackTable where
  "filesTable =
     \<lparr>TrackTable.Type = ''pg_track_table'',
      TrackTable.Args =
        \<lparr>PgTrackTableArgs.Source = ''default'',
         PgTrackTableArgs.Table = \<lparr>Schema = ''storage'', Table.Name = ''files''\<rparr>,
         PgTrackTableArgs.Configuration =
           \<lparr>CustomName = ''files'',
            Configuration.CustomRootFields =
              \<lparr>Select = ''files'',
               SelectByPk = ''file'',
               SelectAggregate = ''filesAggregate'',
               Insert = ''insertFiles'',
               InsertOne = ''insertFile'',
               Update = ''updateFiles'',
               UpdateByPk = ''updateFile'',
               Delete = ''deleteFiles'',
               DeleteByPk = ''deleteFile''\<rparr>,
            CustomColumnNames = Some
              [(''id'', ''id''),
               (''created_at'', ''createdAt''),
               (''updated_at'', ''updatedAt''),
               (''bucket_id'', ''bucketId''),
               (''name'', ''name''),
               (''size'', ''size''),
               (''mime_type'', ''mimeType''),
               (''etag'', ''etag''),
               (''is_uploaded'', ''isUploaded''),
               (''uploaded_by_user_id'', ''uploadedByUserId'')]\<rparr>\<rparr>\<rparr>"

definition objRelationshipBuckets :: CreateObjectRelationship where
  "objRelationshipBuckets =
     \<lparr>CreateObjectRelationship.Type = ''pg_create_object_relationship'',
      CreateObjectRelationship.Args =
        \<lparr>CreateObjectRelationshipArgs.Table = \<lparr>Schema = ''storage'', Table.Name = ''files''\<rparr>,
         CreateObjectRelationshipArgs.Name = ''bucket'',
         CreateObjectRelationshipArgs.Source = ''default'',
         CreateObjectRelationshipArgs.Using =
           \<lparr>CreateObjectRelationshipUsing.ForeignKeyConstraintOn = Some [''bucket_id'']\<rparr>\<rparr>\<rparr>"

definition arrRelationship :: CreateArrayRelationship where
  "arrRelationship =
     \<lparr>CreateArrayRelationship.Type = ''pg_create_array_relationship'',
      CreateArrayRelationship.Args =
        \<lparr>CreateArrayRelationshipArgs.Table = \<lparr>Schema = ''storage'', Table.Name = ''buckets''\<rparr>,
         CreateArrayRelationshipArgs.Name = ''files'',
         CreateArrayRelationshipArgs.Source = ''default'',
         CreateArrayRelationshipArgs.Using =
           \<lparr>CreateArrayRelationshipUsing.ForeignKeyConstraintOn =
              \<lparr>ForeignKeyConstraintOn.Table = \<lparr>Schema = ''storage'', Table.Name = ''files''\<rparr>,
               Columns = Some [''bucket_id'']\<rparr>\<rparr>\<rparr>\<rparr>"

definition objRelationshipUser :: CreateObjectRelationship where
  "objRelationshipUser =
     \<lparr>CreateObjectRelationship.Type = ''pg_create_object_relationship'',
      CreateObjectRelationship.Args =
        \<lparr>CreateObjectRelationshipArgs.Table = \<lparr>Schema = ''storage'', Table.Name = ''files''\<rparr>,
         CreateObjectRelationshipArgs.Name = ''uploadedByUser'',
         CreateObjectRelationshipArgs.Source = ''default'',
         CreateObjectRelationshipArgs.Using =
           \<lparr>CreateObjectRelationshipUsing.ForeignKeyConstraintOn = Some [''uploaded_by_user_id'']\<rparr>\<rparr>\<rparr>"

text \<open>
  The five calls in the order of the source. A panic inside \<^verbatim>\<open>postMetadata\<close> is not
  recovered and ends \<^verbatim>\<open>ApplyHasuraMetadata\<close> as well.
\<close>

definition ApplyHasuraMetadata :: "env \<Rightarrow> string \<Rightarrow> string \<Rightarrow> world \<Rightarrow> error exec \<times> world" where
  "ApplyHasuraMetadata env url hasuraSecret w =
     (case postMetadata env url hasuraSecret (OfTrackTable bucketsTable) w of
        (Inl p, w1) \<Rightarrow> (Inl p, w1)
      | (Inr (Some err), w1) \<Rightarrow>
          (Inr (Some (''problem adding metadata for the buckets table: '' @ err)), w1)
      | (Inr None, w1) \<Rightarrow>
     (case postMetadata env url hasuraSecret (OfTrackTable filesTable) w1 of
        (Inl p, w2) \<Rightarrow> (Inl p, w2)
      | (Inr (Some err), w2) \<Rightarrow>
          (Inr (Some (''problem adding metadata for the files table: '' @ err)), w2)
      | (Inr None, w2) \<Rightarrow>
     (case postMetadata env url hasuraSecret (OfCreateObjectRelationship objRelationshipBuckets) w2 of
        (Inl p, w3) \<Rightarrow> (Inl p, w3)
      | (Inr (Some err), w3) \<Rightarrow>
          (Inr (Some (''problem creaiing object relationship for buckets: '' @ err)), w3)
      | (Inr None, w3) \<Rightarrow>
     (case postMetadata env url hasuraSecret (OfCreateArrayRelationship arrRelationship) w3 of
        (Inl p, w4) \<Rightarrow> (Inl p, w4)
      | (Inr (Some err), w4) \<Rightarrow>
          (Inr (Some (''problem creating array relationships: '' @ err)), w4)
      | (Inr None, w4) \<Rightarrow>
     (case postMetadata env url hasuraSecret (OfCreateObjectRelationship objRelationshipUser) w4 of
        (Inl p, w5) \<Rightarrow> (Inl p, w5)
      | (Inr (Some err), w5) \<Rightarrow>
          (Inr None, logger_Warnf (''problem creating object relationship for users: '' @ err) w5)
      | (Inr None, w5) \<Rightarrow> (Inr None, w5))))))"

subsection \<open>Scripted endpoints\<close>

text \<open>
  Concrete surroundings on which the functions can be run. The endpoint answers the
  \<open>i\<close>-th request it sees with the \<open>i\<close>-th entry of a script and with an empty 200
  afterwards. The other three components are tables of what the Go library returns on
  the few inputs that occur in the runs below: all strings of the five operations consist
  of letters and underscores, which \<^verbatim>\<open>encoding/json\<close> writes between double quotes
  unchanged; \<^verbatim>\<open>url.Parse\<close> rejects a URL that starts with a colon; and the decoder is
  given by its results on four bodies (for any other body the table says nothing about
  Go, and no run below sends one).
\<close>

definition encode_plain :: "string \<Rightarrow> string" where
  \<open>encode_plain s = ''"'' @ s @ ''"''\<close>

definition conflict_body :: string where
  \<open>conflict_body = ''{"path":"$.args","error":"already tracked","code":"already-tracked"}''\<close>

definition rejection_body :: string where
  \<open>rejection_body = ''{"path":"$.args","error":"not permitted","code":"permission-denied"}''\<close>

definition gateway_body :: string where
  "gateway_body = ''<html>502 Bad Gateway</html>''"

definition unmarshal_samples :: "string \<Rightarrow> unmarshalled" where
  "unmarshal_samples b =
     (if b = ''null'' then NilPointer
      else if b = conflict_body then
        Pointer \<lparr>Path = ''$.args'', Error = ''already tracked'', Code = ''already-tracked''\<rparr>
      else if b = rejection_body then
        Pointer \<lparr>Path = ''$.args'', Error = ''not permitted'', Code = ''permission-denied''\<rparr>
      else UnmarshalError ''invalid character'')"

definition newRequest_samples :: "string \<Rightarrow> string option" where
  "newRequest_samples url =
     (case url of
        CHR '':'' # _ \<Rightarrow> Some (''parse '' @ encode_plain url @ '': missing protocol scheme'')
      | _ \<Rightarrow> None)"

definition scripted ::
    "(string + response) list \<Rightarrow> (client \<times> request) list \<Rightarrow> client \<Rightarrow> request \<Rightarrow> string + response" where
  "scripted script h c r =
     (case drop (length h) script of
        [] \<Rightarrow> Inr \<lparr>StatusCode = 200, response.Body = []\<rparr>
      | x # _ \<Rightarrow> x)"

definition mock :: "(string + response) list \<Rightarrow> env" where
  "mock script =
     \<lparr>json_encodeString = encode_plain,
      json_Unmarshal = unmarshal_samples,
      NewRequest_error = newRequest_samples,
      client_Do = scripted script\<rparr>"

definition ok :: "string + response" where
  "ok = Inr \<lparr>StatusCode = 200, response.Body = []\<rparr>"

definition status :: "int \<Rightarrow> string \<Rightarrow> string + response" where
  "status code body = Inr \<lparr>StatusCode = code, response.Body = body\<rparr>"

definition w0 :: world where
  "w0 = \<lparr>requests = [], entries = []\<rparr>"

subsection \<open>What one call of \<^verbatim>\<open>postMetadata\<close> does\<close>

text \<open>
  The request that a call hands to \<^verbatim>\<open>client.Do\<close>, with the client it goes through, and
  the world after it has been handed over.
\<close>

definition issued :: "env \<Rightarrow> string \<Rightarrow> string \<Rightarrow> data \<Rightarrow> client \<times> request" where
  "issued env baseURL hasuraSecret d =
     (\<lparr>Timeout = 10000000000\<rparr>,
      \<lparr>Method = ''POST'',
       URL = baseURL @ ''/metadata'',
       Header = [(''Content-Type'', ''application/json; charset=UTF-8''),
                 (''X-Hasura-admin-secret'', hasuraSecret)],
       request.Body = encode_data (json_encodeString env) d\<rparr>)"

definition sent :: "client \<times> request \<Rightarrow> world \<Rightarrow> world" where
  "sent cr w = w\<lparr>requests := requests w @ [cr]\<rparr>"

text \<open>
  A response after which \<^verbatim>\<open>postMetadata\<close> returns nil: status 200, or a body that decodes
  to a struct whose code is one of the two that stand for an operation applied before.
\<close>

definition accepted :: "env \<Rightarrow> response \<Rightarrow> bool" where
  "accepted env resp =
     (StatusCode resp = 200 \<or>
      (case json_Unmarshal env (response.Body resp) of
         Pointer errResponse \<Rightarrow>
           Code errResponse = ''already-tracked'' \<or> Code errResponse = ''already-exists''
       | _ \<Rightarrow> False))"

text \<open>
  Two values of \<open>data\<close> are the same logical value when they agree in every field and
  their maps have the same entries, whatever the order in which the entries are kept.
\<close>

definition same_map :: "(string \<times> string) list option \<Rightarrow> (string \<times> string) list option \<Rightarrow> bool" where
  "same_map m m' =
     (case (m, m') of
        (None, None) \<Rightarrow> True
      | (Some xs, Some ys) \<Rightarrow> distinct (map fst xs) \<and> distinct (map fst ys) \<and> set xs = set ys
      | _ \<Rightarrow> False)"

fun same_value :: "data \<Rightarrow> data \<Rightarrow> bool" where
  "same_value (OfTrackTable a) (OfTrackTable b) =
     (TrackTable.Type a = TrackTable.Type b \<and>
      PgTrackTableArgs.Source (TrackTable.Args a) = PgTrackTableArgs.Source (TrackTable.Args b) \<and>
      PgTrackTableArgs.Table (TrackTable.Args a) = PgTrackTableArgs.Table (TrackTable.Args b) \<and>
      CustomName (PgTrackTableArgs.Configuration (TrackTable.Args a)) =
        CustomName (PgTrackTableArgs.Configuration (TrackTable.Args b)) \<and>
      Configuration.CustomRootFields (PgTrackTableArgs.Configuration (TrackTable.Args a)) =
        Configuration.CustomRootFields (PgTrackTableArgs.Configuration (TrackTable.Args b)) \<and>
      same_map (CustomColumnNames (PgTrackTableArgs.Configuration (TrackTable.Args a)))
        (CustomColumnNames (PgTrackTableArgs.Configuration (TrackTable.Args b))))"
| "same_value (OfCreateObjectRelationship a) (OfCreateObjectRelationship b) = (a = b)"
| "same_value (OfCreateArrayRelationship a) (OfCreateArrayRelationship b) = (a = b)"
| "same_value _ _ = False"

text \<open>
  The value \<^verbatim>\<open>bucketsTable\<close> with the entries of its column map in another iteration
  order.
\<close>

definition bucketsTable_reordered :: TrackTable where
  "bucketsTable_reordered =
     bucketsTable\<lparr>TrackTable.Args := (TrackTable.Args bucketsTable)
       \<lparr>PgTrackTableArgs.Configuration :=
          (PgTrackTableArgs.Configuration (TrackTable.Args bucketsTable))
            \<lparr>CustomColumnNames := Some
               [(''presigned_urls_enabled'', ''presignedUrlsEnabled''),
                (''cache_control'', ''cacheControl''),
                (''max_upload_file_size'', ''maxUploadFileSize''),
                (''min_upload_file_size'', ''minUploadFileSize''),
                (''download_expiration'', ''downloadExpiration''),
                (''updated_at'', ''updatedAt''),
                (''created_at'', ''createdAt''),
                (''id'', ''id'')]\<rparr>\<rparr>\<rparr>"

section \<open>Properties\<close>

subsection \<open>Auxiliary facts\<close>

lemma postMetadata_unfold:
  "postMetadata env baseURL hasuraSecret d w =
     (case NewRequest_error env (baseURL @ ''/metadata'') of
        Some err \<Rightarrow> (Inr (Some (''problem creating request: '' @ err)), w)
      | None \<Rightarrow>
          (case client_Do env (requests w) (fst (issued env baseURL hasuraSecret d))
                  (snd (issued env baseURL hasuraSecret d)) of
             Inl err \<Rightarrow> (Inr (Some (''problem executing request: '' @ err)),
                          sent (issued env baseURL hasuraSecret d) w)
           | Inr resp \<Rightarrow> (postMetadata_response env resp,
                           sent (issued env baseURL hasuraSecret d) w)))"
  by (simp add: postMetadata_def json_Marshal_def http_NewRequestWithContext_def Header_Set_def
      issued_def sent_def timeout_def time_Second_def Let_def split: option.splits sum.splits)

lemma requests_sent: "requests (sent cr w) = requests w @ [cr]"
  by (simp add: sent_def)

lemma entries_sent: "entries (sent cr w) = entries w"
  by (simp add: sent_def)

lemma postMetadata_entries: "entries (snd (postMetadata env baseURL hasuraSecret d w)) = entries w"
  by (simp add: postMetadata_unfold sent_def split: option.splits sum.splits)

lemma postMetadata_nil_sent:
  assumes "postMetadata env baseURL hasuraSecret d w = (Inr None, w')"
  shows "NewRequest_error env (baseURL @ ''/metadata'') = None \<and>
         w' = sent (issued env baseURL hasuraSecret d) w"
  using assms by (auto simp add: postMetadata_unfold split: option.splits sum.splits)

lemma postMetadata_constructed_sent:
  assumes "NewRequest_error env (baseURL @ ''/metadata'') = None"
  shows "snd (postMetadata env baseURL hasuraSecret d w) = sent (issued env baseURL hasuraSecret d) w"
  using assms by (simp add: postMetadata_unfold split: sum.splits)

lemma postMetadata_response_accepted:
  "accepted env resp \<Longrightarrow> postMetadata_response env resp = Inr None"
  by (auto simp add: accepted_def postMetadata_response_def split: unmarshalled.splits)

lemma postMetadata_response_nil_iff:
  "postMetadata_response env resp = Inr None \<longleftrightarrow> accepted env resp"
  by (simp add: postMetadata_response_def accepted_def split: unmarshalled.splits)

lemma postMetadata_response_panics_iff:
  "postMetadata_response env resp = Inl NilPointerDereference \<longleftrightarrow>
     StatusCode resp \<noteq> 200 \<and> json_Unmarshal env (response.Body resp) = NilPointer"
  by (simp add: postMetadata_response_def split: unmarshalled.splits)

lemma postMetadata_accepted:
  assumes "NewRequest_error env (baseURL @ ''/metadata'') = None"
    and "client_Do env (requests w) (fst (issued env baseURL hasuraSecret d))
           (snd (issued env baseURL hasuraSecret d)) = Inr resp"
    and "accepted env resp"
  shows "postMetadata env baseURL hasuraSecret d w =
           (Inr None, sent (issued env baseURL hasuraSecret d) w)"
  using assms by (simp add: postMetadata_unfold postMetadata_response_accepted)

lemma postMetadata_rejected:
  assumes "NewRequest_error env (baseURL @ ''/metadata'') = None"
    and "client_Do env (requests w) (fst (issued env baseURL hasuraSecret d))
           (snd (issued env baseURL hasuraSecret d)) = Inr resp"
    and "StatusCode resp \<noteq> 200"
    and "json_Unmarshal env (response.Body resp) \<noteq> NilPointer"
    and "\<not> accepted env resp"
  shows "postMetadata env baseURL hasuraSecret d w =
           (Inr (Some (''status_code: '' @ fmt_d (StatusCode resp) @
                       ''\<newline>response: '' @ response.Body resp)),
            sent (issued env baseURL hasuraSecret d) w)"
  using assms
  by (auto simp add: postMetadata_unfold postMetadata_response_def accepted_def
      split: unmarshalled.splits)


lemma postMetadata_nil_iff:
  "fst (postMetadata env baseURL hasuraSecret d w) = Inr None \<longleftrightarrow>
     NewRequest_error env (baseURL @ ''/metadata'') = None \<and>
     (\<exists>resp. client_Do env (requests w) (fst (issued env baseURL hasuraSecret d))
                (snd (issued env baseURL hasuraSecret d)) = Inr resp \<and>
             accepted env resp)"
  by (auto simp add: postMetadata_unfold postMetadata_response_nil_iff
      split: option.splits sum.splits)

lemma postMetadata_panics_iff:
  "fst (postMetadata env baseURL hasuraSecret d w) = Inl NilPointerDereference \<longleftrightarrow>
     NewRequest_error env (baseURL @ ''/metadata'') = None \<and>
     (\<exists>resp. client_Do env (requests w) (fst (issued env baseURL hasuraSecret d))
                (snd (issued env baseURL hasuraSecret d)) = Inr resp \<and>
             StatusCode resp \<noteq> 200 \<and>
             json_Unmarshal env (response.Body resp) = NilPointer)"
  by (auto simp add: postMetadata_unfold postMetadata_response_panics_iff
      split: option.splits sum.splits)

lemma postMetadata_always_accepted:
  assumes "NewRequest_error env (baseURL @ ''/metadata'') = None"
    and "\<forall>h c r. \<exists>resp. client_Do env h c r = Inr resp \<and> accepted env resp"
  shows "postMetadata env baseURL hasuraSecret d w =
           (Inr None, sent (issued env baseURL hasuraSecret d) w)"
proof -
  obtain resp where "client_Do env (requests w) (fst (issued env baseURL hasuraSecret d))
      (snd (issued env baseURL hasuraSecret d)) = Inr resp" and "accepted env resp"
    using assms(2) by blast
  with assms(1) show ?thesis
    by (rule postMetadata_accepted)
qed

lemma ApplyHasuraMetadata_buckets_failed:
  assumes "postMetadata env url s (OfTrackTable bucketsTable) w = (Inr (Some err), w1)"
  shows "ApplyHasuraMetadata env url s w =
           (Inr (Some (''problem adding metadata for the buckets table: '' @ err)), w1)"
  using assms by (simp add: ApplyHasuraMetadata_def)

lemma ApplyHasuraMetadata_files_failed:
  assumes "postMetadata env url s (OfTrackTable bucketsTable) w = (Inr None, w1)"
    and "postMetadata env url s (OfTrackTable filesTable) w1 = (Inr (Some err), w2)"
  shows "ApplyHasuraMetadata env url s w =
           (Inr (Some (''problem adding metadata for the files table: '' @ err)), w2)"
  using assms by (simp add: ApplyHasuraMetadata_def)

lemma ApplyHasuraMetadata_objRelationshipBuckets_failed:
  assumes "postMetadata env url s (OfTrackTable bucketsTable) w = (Inr None, w1)"
    and "postMetadata env url s (OfTrackTable filesTable) w1 = (Inr None, w2)"
    and "postMetadata env url s (OfCreateObjectRelationship objRelationshipBuckets) w2 =
           (Inr (Some err), w3)"
  shows "ApplyHasuraMetadata env url s w =
           (Inr (Some (''problem creaiing object relationship for buckets: '' @ err)), w3)"
  using assms by (simp add: ApplyHasuraMetadata_def)

lemma ApplyHasuraMetadata_arrRelationship_failed:
  assumes "postMetadata env url s (OfTrackTable bucketsTable) w = (Inr None, w1)"
    and "postMetadata env url s (OfTrackTable filesTable) w1 = (Inr None, w2)"
    and "postMetadata env url s (OfCreateObjectRelationship objRelationshipBuckets) w2 =
           (Inr None, w3)"
    and "postMetadata env url s (OfCreateArrayRelationship arrRelationship) w3 =
           (Inr (Some err), w4)"
  shows "ApplyHasuraMetadata env url s w =
           (Inr (Some (''problem creating array relationships: '' @ err)), w4)"
  using assms by (simp add: ApplyHasuraMetadata_def)

lemma ApplyHasuraMetadata_objRelationshipUser_failed:
  assumes "postMetadata env url s (OfTrackTable bucketsTable) w = (Inr None, w1)"
    and "postMetadata env url s (OfTrackTable filesTable) w1 = (Inr None, w2)"
    and "postMetadata env url s (OfCreateObjectRelationship objRelationshipBuckets) w2 =
           (Inr None, w3)"
    and "postMetadata env url s (OfCreateArrayRelationship arrRelationship) w3 = (Inr None, w4)"
    and "postMetadata env url s (OfCreateObjectRelationship objRelationshipUser) w4 =
           (Inr (Some err), w5)"
  shows "ApplyHasuraMetadata env url s w =
           (Inr None, logger_Warnf (''problem creating object relationship for users: '' @ err) w5)"
  using assms by (simp add: ApplyHasuraMetadata_def)

lemma ApplyHasuraMetadata_all_nil:
  assumes "postMetadata env url s (OfTrackTable bucketsTable) w = (Inr None, w1)"
    and "postMetadata env url s (OfTrackTable filesTable) w1 = (Inr None, w2)"
    and "postMetadata env url s (OfCreateObjectRelationship objRelationshipBuckets) w2 =
           (Inr None, w3)"
    and "postMetadata env url s (OfCreateArrayRelationship arrRelationship) w3 = (Inr None, w4)"
    and "postMetadata env url s (OfCreateObjectRelationship objRelationshipUser) w4 =
           (Inr None, w5)"
  shows "ApplyHasuraMetadata env url s w = (Inr None, w5)"
  using assms by (simp add: ApplyHasuraMetadata_def)

lemma ApplyHasuraMetadata_always_accepted:
  assumes "NewRequest_error env (url @ ''/metadata'') = None"
    and "\<forall>h c r. \<exists>resp. client_Do env h c r = Inr resp \<and> accepted env resp"
  shows "ApplyHasuraMetadata env url s w =
           (Inr None,
            w\<lparr>requests := requests w @
               map (issued env url s)
                 [OfTrackTable bucketsTable,
                  OfTrackTable filesTable,
                  OfCreateObjectRelationship objRelationshipBuckets,
                  OfCreateArrayRelationship arrRelationship,
                  OfCreateObjectRelationship objRelationshipUser]\<rparr>)"
proof -
  note p = postMetadata_always_accepted [OF assms]
  have "ApplyHasuraMetadata env url s w =
          (Inr None,
           sent (issued env url s (OfCreateObjectRelationship objRelationshipUser))
             (sent (issued env url s (OfCreateArrayRelationship arrRelationship))
               (sent (issued env url s (OfCreateObjectRelationship objRelationshipBuckets))
                 (sent (issued env url s (OfTrackTable filesTable))
                   (sent (issued env url s (OfTrackTable bucketsTable)) w)))))"
    by (rule ApplyHasuraMetadata_all_nil) (rule p)+
  then show ?thesis
    by (simp add: sent_def)
qed

lemma marshal_map_same_map:
  assumes "same_map m m'"
  shows "marshal_map enc m = marshal_map enc m'"
proof (cases m)
  case None
  with assms show ?thesis
    by (cases m') (simp_all add: same_map_def)
next
  case (Some xs)
  with assms obtain ys where m': "m' = Some ys"
    by (cases m') (simp_all add: same_map_def)
  from assms Some m' have dx: "distinct (map fst xs)" and dy: "distinct (map fst ys)"
    and eq: "set xs = set ys"
    by (simp_all add: same_map_def)
  from dx have "distinct xs" and inj: "inj_on fst (set xs)"
    by (simp_all add: distinct_map)
  moreover from dy have "distinct ys"
    by (simp add: distinct_map)
  ultimately have "mset xs = mset ys"
    using eq by (simp add: set_eq_iff_mset_eq_distinct)
  then have "sort_key fst xs = sort_key fst ys"
    using inj by (rule sort_key_eq_sort_key)
  with Some m' show ?thesis
    by (simp add: marshal_map_def)
qed

text \<open>
  Runs on the scripted endpoints: what the tables return on the inputs of the runs, and
  that an endpoint whose script holds accepted responses only never answers otherwise.
\<close>

lemma mock_NewRequest_error:
  "NewRequest_error (mock script) ''http://hasura:8080/v1/metadata'' = None"
  by (simp add: mock_def newRequest_samples_def)

lemma mock_client_Do:
  "client_Do (mock script) h c r =
     (case drop (length h) script of
        [] \<Rightarrow> Inr \<lparr>StatusCode = 200, response.Body = []\<rparr>
      | x # _ \<Rightarrow> x)"
  by (simp add: mock_def scripted_def)

lemma mock_json_Unmarshal: "json_Unmarshal (mock script) = unmarshal_samples"
  by (simp add: mock_def)

lemma unmarshal_samples_null: "unmarshal_samples ''null'' = NilPointer"
  by (simp add: unmarshal_samples_def)

lemma unmarshal_samples_conflict:
  "unmarshal_samples conflict_body =
     Pointer \<lparr>Path = ''$.args'', Error = ''already tracked'', Code = ''already-tracked''\<rparr>"
  by (simp add: unmarshal_samples_def conflict_body_def)

lemma unmarshal_samples_rejection:
  "unmarshal_samples rejection_body =
     Pointer \<lparr>Path = ''$.args'', Error = ''not permitted'', Code = ''permission-denied''\<rparr>"
  by (simp add: unmarshal_samples_def conflict_body_def rejection_body_def)

lemma unmarshal_samples_gateway:
  "unmarshal_samples gateway_body = UnmarshalError ''invalid character''"
  by (simp add: unmarshal_samples_def conflict_body_def rejection_body_def gateway_body_def)

lemma fmt_d_500: "fmt_d 500 = ''500''"
  by code_simp

lemmas mock_run =
  postMetadata_unfold mock_NewRequest_error mock_client_Do mock_json_Unmarshal requests_sent
  w0_def ok_def status_def postMetadata_response_def unmarshal_samples_null
  unmarshal_samples_conflict unmarshal_samples_rejection unmarshal_samples_gateway fmt_d_500

lemma mock_always_accepted:
  assumes "\<forall>x \<in> set script. \<exists>resp. x = Inr resp \<and> accepted (mock script) resp"
  shows "\<forall>h c r. \<exists>resp. client_Do (mock script) h c r = Inr resp \<and> accepted (mock script) resp"
proof (intro allI)
  fix h c r
  show "\<exists>resp. client_Do (mock script) h c r = Inr resp \<and> accepted (mock script) resp"
  proof (cases "drop (length h) script")
    case Nil
    then show ?thesis
      by (simp add: mock_client_Do accepted_def)
  next
    case (Cons x rest)
    then have "x \<in> set script"
      by (metis in_set_dropD list.set_intros(1))
    with assms Cons show ?thesis
      by (auto simp add: mock_client_Do)
  qed
qed

subsection \<open>Serialisation\<close>

text \<open>
  Claim C9. Serialising the same logical operation value gives the same bytes, for each
  of the kinds of operation and whatever the string encoder: the payload does not depend
  on the order in which the column map holds its entries, because the encoder sorts them
  by key. For the two relationship kinds, which hold no map, the same value is the same
  term.
\<close>

theorem json_Marshal_same_value:
  assumes "same_value a b"
  shows "json_Marshal enc a = json_Marshal enc b"
proof (cases a)
  case (OfTrackTable x)
  with assms obtain y where b: "b = OfTrackTable y"
    by (cases b) simp_all
  from assms OfTrackTable b
  have "same_map (CustomColumnNames (PgTrackTableArgs.Configuration (TrackTable.Args x)))
          (CustomColumnNames (PgTrackTableArgs.Configuration (TrackTable.Args y)))"
    by simp
  then have "marshal_map enc
               (CustomColumnNames (PgTrackTableArgs.Configuration (TrackTable.Args x))) =
             marshal_map enc
               (CustomColumnNames (PgTrackTableArgs.Configuration (TrackTable.Args y)))"
    by (rule marshal_map_same_map)
  with assms OfTrackTable b show ?thesis
    by (simp add: json_Marshal_def encode_data_def marshal_TrackTable_def
        marshal_PgTrackTableArgs_def marshal_Configuration_def)
next
  case (OfCreateObjectRelationship x)
  with assms show ?thesis
    by (cases b) simp_all
next
  case (OfCreateArrayRelationship x)
  with assms show ?thesis
    by (cases b) simp_all
qed

text \<open>
  The two orders of the column map of the buckets table give one payload.
\<close>

theorem json_Marshal_same_value_witness:
  "same_value (OfTrackTable bucketsTable) (OfTrackTable bucketsTable_reordered) \<and>
   CustomColumnNames (PgTrackTableArgs.Configuration (TrackTable.Args bucketsTable)) \<noteq>
   CustomColumnNames (PgTrackTableArgs.Configuration (TrackTable.Args bucketsTable_reordered)) \<and>
   json_Marshal encode_plain (OfTrackTable bucketsTable) =
   json_Marshal encode_plain (OfTrackTable bucketsTable_reordered)"
proof -
  have h: "same_value (OfTrackTable bucketsTable) (OfTrackTable bucketsTable_reordered)"
    by (simp add: bucketsTable_reordered_def bucketsTable_def same_map_def) code_simp
  have n: "CustomColumnNames (PgTrackTableArgs.Configuration (TrackTable.Args bucketsTable)) \<noteq>
    CustomColumnNames (PgTrackTableArgs.Configuration (TrackTable.Args bucketsTable_reordered))"
    by (simp add: bucketsTable_reordered_def bucketsTable_def)
  show ?thesis
    using json_Marshal_same_value [OF h, of encode_plain] h n by simp
qed

subsection \<open>The request of one call\<close>

text \<open>
  Claim C8, as stated: each call issues exactly one POST request. A call whose URL
  \<^verbatim>\<open>http.NewRequestWithContext\<close> rejects returns on line 37 before \<^verbatim>\<open>client.Do\<close>: with the
  base URL \<^verbatim>\<open>:\<close> the call returns an error and no request has been issued.
\<close>

theorem malformed_endpoint_sends_nothing:
  "postMetadata (mock []) '':'' ''secret'' (OfTrackTable bucketsTable) w0 =
     (Inr (Some (''problem creating request: parse '' @ encode_plain '':/metadata'' @
                 '': missing protocol scheme'')), w0) \<and>
   requests w0 = []"
  by (simp add: postMetadata_unfold mock_def newRequest_samples_def w0_def)

text \<open>
  Claim C8, amended: a call issues at most one request. When the request cannot be
  constructed the call returns an error and issues none. Otherwise it issues exactly
  one: a POST to \<^verbatim>\<open><baseURL>/metadata\<close> with the content-type and admin-secret headers and
  the serialised operation as body, through a client whose timeout is ten seconds; and
  when \<^verbatim>\<open>client.Do\<close> reports a transport failure or a timeout, the call returns an error
  with that request the only one issued.
\<close>

theorem postMetadata_at_most_one_request:
  "(NewRequest_error env (baseURL @ ''/metadata'') = Some err \<longrightarrow>
      postMetadata env baseURL hasuraSecret d w =
        (Inr (Some (''problem creating request: '' @ err)), w)) \<and>
   (NewRequest_error env (baseURL @ ''/metadata'') = None \<longrightarrow>
      requests (snd (postMetadata env baseURL hasuraSecret d w)) =
        requests w @
        [(\<lparr>Timeout = 10 * time_Second\<rparr>,
          \<lparr>Method = ''POST'',
           URL = baseURL @ ''/metadata'',
           Header = [(''Content-Type'', ''application/json; charset=UTF-8''),
                     (''X-Hasura-admin-secret'', hasuraSecret)],
           request.Body = encode_data (json_encodeString env) d\<rparr>)] \<and>
      (client_Do env (requests w) \<lparr>Timeout = 10 * time_Second\<rparr>
         \<lparr>Method = ''POST'',
          URL = baseURL @ ''/metadata'',
          Header = [(''Content-Type'', ''application/json; charset=UTF-8''),
                    (''X-Hasura-admin-secret'', hasuraSecret)],
          request.Body = encode_data (json_encodeString env) d\<rparr> = Inl err \<longrightarrow>
       fst (postMetadata env baseURL hasuraSecret d w) =
         Inr (Some (''problem executing request: '' @ err))))"
proof (intro conjI impI)
  assume "NewRequest_error env (baseURL @ ''/metadata'') = Some err"
  then show "postMetadata env baseURL hasuraSecret d w =
               (Inr (Some (''problem creating request: '' @ err)), w)"
    by (simp add: postMetadata_unfold)
next
  assume "NewRequest_error env (baseURL @ ''/metadata'') = None"
  then have "snd (postMetadata env baseURL hasuraSecret d w) =
               sent (issued env baseURL hasuraSecret d) w"
    by (rule postMetadata_constructed_sent)
  then show "requests (snd (postMetadata env baseURL hasuraSecret d w)) =
        requests w @
        [(\<lparr>Timeout = 10 * time_Second\<rparr>,
          \<lparr>Method = ''POST'',
           URL = baseURL @ ''/metadata'',
           Header = [(''Content-Type'', ''application/json; charset=UTF-8''),
                     (''X-Hasura-admin-secret'', hasuraSecret)],
           request.Body = encode_data (json_encodeString env) d\<rparr>)]"
    by (simp add: requests_sent issued_def time_Second_def)
next
  assume "NewRequest_error env (baseURL @ ''/metadata'') = None"
    and "client_Do env (requests w) \<lparr>Timeout = 10 * time_Second\<rparr>
         \<lparr>Method = ''POST'',
          URL = baseURL @ ''/metadata'',
          Header = [(''Content-Type'', ''application/json; charset=UTF-8''),
                    (''X-Hasura-admin-secret'', hasuraSecret)],
          request.Body = encode_data (json_encodeString env) d\<rparr> = Inl err"
  then show "fst (postMetadata env baseURL hasuraSecret d w) =
               Inr (Some (''problem executing request: '' @ err))"
    by (simp add: postMetadata_unfold issued_def time_Second_def)
qed

text \<open>
  A base URL that is rejected, and an endpoint on which the client times out.
\<close>

theorem postMetadata_at_most_one_request_witness:
  "postMetadata (mock []) '':'' ''secret'' (OfTrackTable bucketsTable) w0 =
     (Inr (Some (''problem creating request: parse '' @ encode_plain '':/metadata'' @
                 '': missing protocol scheme'')), w0) \<and>
   length (requests (snd (postMetadata (mock [Inl ''context deadline exceeded''])
      ''http://hasura:8080/v1'' ''secret'' (OfTrackTable bucketsTable) w0))) = 1 \<and>
   fst (postMetadata (mock [Inl ''context deadline exceeded'']) ''http://hasura:8080/v1''
      ''secret'' (OfTrackTable bucketsTable) w0) =
     Inr (Some ''problem executing request: context deadline exceeded'')"
proof -
  let ?bad = "mock []" and ?env = "mock [Inl ''context deadline exceeded'']"
  let ?d = "OfTrackTable bucketsTable"
  have a: "NewRequest_error ?bad ('':'' @ ''/metadata'') =
             Some (''parse '' @ encode_plain '':/metadata'' @ '': missing protocol scheme'')"
    by (simp add: mock_def newRequest_samples_def)
  have b: "NewRequest_error ?env (''http://hasura:8080/v1'' @ ''/metadata'') = None"
    by (simp add: mock_NewRequest_error)
  have c: "client_Do ?env (requests w0) \<lparr>Timeout = 10 * time_Second\<rparr>
         \<lparr>Method = ''POST'',
          URL = ''http://hasura:8080/v1'' @ ''/metadata'',
          Header = [(''Content-Type'', ''application/json; charset=UTF-8''),
                    (''X-Hasura-admin-secret'', ''secret'')],
          request.Body = encode_data (json_encodeString ?env) ?d\<rparr> =
        Inl ''context deadline exceeded''"
    by (simp add: mock_client_Do w0_def)
  have r: "requests w0 = []"
    by (simp add: w0_def)
  show ?thesis
    using postMetadata_at_most_one_request [of ?bad "'':''" _ "''secret''" ?d w0] a
      postMetadata_at_most_one_request [of ?env "''http://hasura:8080/v1''"
        "''context deadline exceeded''" "''secret''" ?d w0] b c r
    by simp
qed

subsection \<open>The classification of a response\<close>



text \<open>
  Claim C7. The classification of a response is meant to end in nil or in an error for
  every status and body. It does not for the body \<^verbatim>\<open>null\<close> with a status other than 200:
  \<^verbatim>\<open>json.Unmarshal\<close> returns no error and leaves \<^verbatim>\<open>errResponse\<close> nil, and line 55 reads
  \<^verbatim>\<open>errResponse.Code\<close>. The run below ends in the panic.
\<close>

theorem postMetadata_response_null_panics:
  "postMetadata_response (mock []) \<lparr>StatusCode = 500, response.Body = ''null''\<rparr> =
     Inl NilPointerDereference"
  by (simp add: postMetadata_response_def mock_def unmarshal_samples_def)

text \<open>
  Claim C1. A call is meant to return an error unless the status is 200 or the body
  decodes to one of the two codes for an operation applied before. At status 400 with the
  body \<^verbatim>\<open>null\<close> neither holds, and the call returns neither nil nor an error: it panics
  after the request has been sent.
\<close>

theorem postMetadata_null_body_neither_nil_nor_error:
  "\<not> accepted (mock [status 400 ''null'']) \<lparr>StatusCode = 400, response.Body = ''null''\<rparr> \<and>
   postMetadata (mock [status 400 ''null'']) ''http://hasura:8080/v1'' ''secret''
     (OfTrackTable bucketsTable) w0 =
   (Inl NilPointerDereference,
    sent (issued (mock [status 400 ''null'']) ''http://hasura:8080/v1'' ''secret''
            (OfTrackTable bucketsTable)) w0)"
  by (simp add: postMetadata_unfold postMetadata_response_def accepted_def mock_def
      newRequest_samples_def scripted_def status_def w0_def unmarshal_samples_def)

text \<open>
  Claim C10. \<^verbatim>\<open>postMetadata\<close> returns nil both for an operation that the endpoint applied
  (status 200) and for one that it had applied before (an idempotency code), and nothing
  else that a caller can see differs: two surroundings in which every response is of one
  of these two kinds, and which agree on the Go library, give the same result and the
  same world, for one call and for the whole sequence.
\<close>

theorem applied_and_already_applied_indistinguishable:
  assumes "json_encodeString env1 = json_encodeString env2"
    and "NewRequest_error env1 = NewRequest_error env2"
    and "\<forall>h c r. \<exists>resp. client_Do env1 h c r = Inr resp \<and> accepted env1 resp"
    and "\<forall>h c r. \<exists>resp. client_Do env2 h c r = Inr resp \<and> accepted env2 resp"
  shows "postMetadata env1 url s d w = postMetadata env2 url s d w \<and>
         ApplyHasuraMetadata env1 url s w = ApplyHasuraMetadata env2 url s w \<and>
         (NewRequest_error env1 (url @ ''/metadata'') = None \<longrightarrow>
            fst (postMetadata env1 url s d w) = Inr None \<and>
            fst (postMetadata env2 url s d w) = Inr None \<and>
            fst (ApplyHasuraMetadata env1 url s w) = Inr None \<and>
            fst (ApplyHasuraMetadata env2 url s w) = Inr None)"
proof (cases "NewRequest_error env1 (url @ ''/metadata'')")
  case None
  then have n2: "NewRequest_error env2 (url @ ''/metadata'') = None"
    using assms(2) by simp
  have i: "issued env1 url s = issued env2 url s"
    by (rule ext) (simp add: issued_def assms(1))
  show ?thesis
    using None
    by (simp add: postMetadata_always_accepted [OF None assms(3)]
        postMetadata_always_accepted [OF n2 assms(4)]
        ApplyHasuraMetadata_always_accepted [OF None assms(3)]
        ApplyHasuraMetadata_always_accepted [OF n2 assms(4)] i)
next
  case (Some err)
  then have s2: "NewRequest_error env2 (url @ ''/metadata'') = Some err"
    using assms(2) by simp
  have p: "postMetadata env1 url s d' w =
             (Inr (Some (''problem creating request: '' @ err)), w)"
    "postMetadata env2 url s d' w = (Inr (Some (''problem creating request: '' @ err)), w)"
    for d'
    using Some s2 by (simp_all add: postMetadata_unfold)
  show ?thesis
    using Some by (simp add: p ApplyHasuraMetadata_def)
qed

text \<open>
  One endpoint answers 200 throughout; the other answers the first request with status
  400 and the code \<^verbatim>\<open>already-tracked\<close>.
\<close>

theorem applied_and_already_applied_indistinguishable_witness:
  "postMetadata (mock []) ''http://hasura:8080/v1'' ''secret'' (OfTrackTable bucketsTable) w0 =
   postMetadata (mock [status 400 conflict_body]) ''http://hasura:8080/v1'' ''secret''
     (OfTrackTable bucketsTable) w0 \<and>
   ApplyHasuraMetadata (mock []) ''http://hasura:8080/v1'' ''secret'' w0 =
   ApplyHasuraMetadata (mock [status 400 conflict_body]) ''http://hasura:8080/v1'' ''secret'' w0 \<and>
   fst (postMetadata (mock [status 400 conflict_body]) ''http://hasura:8080/v1'' ''secret''
     (OfTrackTable bucketsTable) w0) = Inr None \<and>
   fst (ApplyHasuraMetadata (mock [status 400 conflict_body]) ''http://hasura:8080/v1''
     ''secret'' w0) = Inr None"
proof -
  let ?fresh = "mock []" and ?again = "mock [status 400 conflict_body]"
  have h1: "json_encodeString ?fresh = json_encodeString ?again"
    and h2: "NewRequest_error ?fresh = NewRequest_error ?again"
    by (simp_all add: mock_def)
  have h3: "\<forall>h c r. \<exists>resp. client_Do ?fresh h c r = Inr resp \<and> accepted ?fresh resp"
    by (rule mock_always_accepted) simp
  have h4: "\<forall>h c r. \<exists>resp. client_Do ?again h c r = Inr resp \<and> accepted ?again resp"
    by (rule mock_always_accepted)
      (simp add: status_def accepted_def mock_json_Unmarshal unmarshal_samples_conflict)
  have n: "NewRequest_error ?fresh (''http://hasura:8080/v1'' @ ''/metadata'') = None"
    by (simp add: mock_NewRequest_error)
  show ?thesis
    using applied_and_already_applied_indistinguishable [OF h1 h2 h3 h4,
        of "''http://hasura:8080/v1''" "''secret''" "OfTrackTable bucketsTable" w0] n
    by simp
qed

subsection \<open>The sequence\<close>



text \<open>
  Claim C2, as stated: the first three operations are critical and the fourth is best
  effort. In the source the fourth call (the array relationship, lines 261-263) returns
  its error like the three before it; the call whose error is only logged is the fifth.
  When the endpoint rejects the fourth request, \<^verbatim>\<open>ApplyHasuraMetadata\<close> returns the error,
  nothing is logged, and the fifth request is never sent.
\<close>

theorem fourth_operation_failure_aborts:
  "ApplyHasuraMetadata (mock [ok, ok, ok, status 500 rejection_body]) ''http://hasura:8080/v1''
     ''secret'' w0 =
   (Inr (Some (''problem creating array relationships: status_code: 500\<newline>response: '' @
               rejection_body)),
    \<lparr>requests =
       map (issued (mock [ok, ok, ok, status 500 rejection_body]) ''http://hasura:8080/v1''
              ''secret'')
         [OfTrackTable bucketsTable, OfTrackTable filesTable,
          OfCreateObjectRelationship objRelationshipBuckets,
          OfCreateArrayRelationship arrRelationship],
     entries = []\<rparr>)"
  by (simp add: ApplyHasuraMetadata_def mock_run) (simp add: sent_def w0_def)

text \<open>
  Claim C2, amended: the first four operations are critical and the fifth is best effort.
  When one of the first four calls returns an error after the calls before it returned
  nil, \<^verbatim>\<open>ApplyHasuraMetadata\<close> returns that error under the prefix of the operation and
  the world is the one that call left, so nothing more is sent or logged. When the first
  four return nil and the fifth returns an error, \<^verbatim>\<open>ApplyHasuraMetadata\<close> returns nil
  and the logger gets one entry at warning level with that error.
\<close>

theorem ApplyHasuraMetadata_four_critical_then_best_effort:
  "(postMetadata env url s (OfTrackTable bucketsTable) w = (Inr (Some err), w1) \<longrightarrow>
      ApplyHasuraMetadata env url s w =
        (Inr (Some (''problem adding metadata for the buckets table: '' @ err)), w1)) \<and>
   (postMetadata env url s (OfTrackTable bucketsTable) w = (Inr None, w1) \<and>
    postMetadata env url s (OfTrackTable filesTable) w1 = (Inr (Some err), w2) \<longrightarrow>
      ApplyHasuraMetadata env url s w =
        (Inr (Some (''problem adding metadata for the files table: '' @ err)), w2)) \<and>
   (postMetadata env url s (OfTrackTable bucketsTable) w = (Inr None, w1) \<and>
    postMetadata env url s (OfTrackTable filesTable) w1 = (Inr None, w2) \<and>
    postMetadata env url s (OfCreateObjectRelationship objRelationshipBuckets) w2 =
      (Inr (Some err), w3) \<longrightarrow>
      ApplyHasuraMetadata env url s w =
        (Inr (Some (''problem creaiing object relationship for buckets: '' @ err)), w3)) \<and>
   (postMetadata env url s (OfTrackTable bucketsTable) w = (Inr None, w1) \<and>
    postMetadata env url s (OfTrackTable filesTable) w1 = (Inr None, w2) \<and>
    postMetadata env url s (OfCreateObjectRelationship objRelationshipBuckets) w2 =
      (Inr None, w3) \<and>
    postMetadata env url s (OfCreateArrayRelationship arrRelationship) w3 =
      (Inr (Some err), w4) \<longrightarrow>
      ApplyHasuraMetadata env url s w =
        (Inr (Some (''problem creating array relationships: '' @ err)), w4)) \<and>
   (postMetadata env url s (OfTrackTable bucketsTable) w = (Inr None, w1) \<and>
    postMetadata env url s (OfTrackTable filesTable) w1 = (Inr None, w2) \<and>
    postMetadata env url s (OfCreateObjectRelationship objRelationshipBuckets) w2 =
      (Inr None, w3) \<and>
    postMetadata env url s (OfCreateArrayRelationship arrRelationship) w3 = (Inr None, w4) \<and>
    postMetadata env url s (OfCreateObjectRelationship objRelationshipUser) w4 =
      (Inr (Some err), w5) \<longrightarrow>
      ApplyHasuraMetadata env url s w =
        (Inr None,
         w5\<lparr>entries := entries w5 @
              [(WarnLevel, ''problem creating object relationship for users: '' @ err)]\<rparr>))"
  using ApplyHasuraMetadata_buckets_failed [of env url s w err w1]
    ApplyHasuraMetadata_files_failed [of env url s w w1 err w2]
    ApplyHasuraMetadata_objRelationshipBuckets_failed [of env url s w w1 w2 err w3]
    ApplyHasuraMetadata_arrRelationship_failed [of env url s w w1 w2 w3 err w4]
    ApplyHasuraMetadata_objRelationshipUser_failed [of env url s w w1 w2 w3 w4 err w5]
  by (simp add: logger_Warnf_def)

text \<open>
  Five endpoints, each rejecting one of the five requests with status 500.
\<close>

theorem ApplyHasuraMetadata_four_critical_then_best_effort_witness:
  "fst (ApplyHasuraMetadata (mock [status 500 rejection_body]) ''http://hasura:8080/v1''
          ''secret'' w0) =
     Inr (Some (''problem adding metadata for the buckets table: '' @
                ''status_code: 500\<newline>response: '' @ rejection_body)) \<and>
   fst (ApplyHasuraMetadata (mock [ok, status 500 rejection_body]) ''http://hasura:8080/v1''
          ''secret'' w0) =
     Inr (Some (''problem adding metadata for the files table: '' @
                ''status_code: 500\<newline>response: '' @ rejection_body)) \<and>
   fst (ApplyHasuraMetadata (mock [ok, ok, status 500 rejection_body]) ''http://hasura:8080/v1''
          ''secret'' w0) =
     Inr (Some (''problem creaiing object relationship for buckets: '' @
                ''status_code: 500\<newline>response: '' @ rejection_body)) \<and>
   fst (ApplyHasuraMetadata (mock [ok, ok, ok, status 500 rejection_body])
          ''http://hasura:8080/v1'' ''secret'' w0) =
     Inr (Some (''problem creating array relationships: '' @
                ''status_code: 500\<newline>response: '' @ rejection_body)) \<and>
   fst (ApplyHasuraMetadata (mock [ok, ok, ok, ok, status 500 rejection_body])
          ''http://hasura:8080/v1'' ''secret'' w0) = Inr None \<and>
   entries (snd (ApplyHasuraMetadata (mock [ok, ok, ok, ok, status 500 rejection_body])
          ''http://hasura:8080/v1'' ''secret'' w0)) =
     [(WarnLevel, ''problem creating object relationship for users: '' @
                  ''status_code: 500\<newline>response: '' @ rejection_body)]"
proof -
  let ?u = "''http://hasura:8080/v1''" and ?s = "''secret''"
  let ?err = "''status_code: 500\<newline>response: '' @ rejection_body"
  let ?d1 = "OfTrackTable bucketsTable" and ?d2 = "OfTrackTable filesTable"
  let ?d3 = "OfCreateObjectRelationship objRelationshipBuckets"
  let ?d4 = "OfCreateArrayRelationship arrRelationship"
  let ?d5 = "OfCreateObjectRelationship objRelationshipUser"
  let ?w1 = "\<lambda>env. sent (issued env ?u ?s ?d1) w0"
  let ?w2 = "\<lambda>env. sent (issued env ?u ?s ?d2) (?w1 env)"
  let ?w3 = "\<lambda>env. sent (issued env ?u ?s ?d3) (?w2 env)"
  let ?w4 = "\<lambda>env. sent (issued env ?u ?s ?d4) (?w3 env)"
  let ?w5 = "\<lambda>env. sent (issued env ?u ?s ?d5) (?w4 env)"
  let ?e1 = "mock [status 500 rejection_body]"
  let ?e2 = "mock [ok, status 500 rejection_body]"
  let ?e3 = "mock [ok, ok, status 500 rejection_body]"
  let ?e4 = "mock [ok, ok, ok, status 500 rejection_body]"
  let ?e5 = "mock [ok, ok, ok, ok, status 500 rejection_body]"
  have a1: "postMetadata ?e1 ?u ?s ?d1 w0 = (Inr (Some ?err), ?w1 ?e1)"
    by (simp add: mock_run)
  have b1: "postMetadata ?e2 ?u ?s ?d1 w0 = (Inr None, ?w1 ?e2)"
    and b2: "postMetadata ?e2 ?u ?s ?d2 (?w1 ?e2) = (Inr (Some ?err), ?w2 ?e2)"
    by (simp_all add: mock_run)
  have c1: "postMetadata ?e3 ?u ?s ?d1 w0 = (Inr None, ?w1 ?e3)"
    and c2: "postMetadata ?e3 ?u ?s ?d2 (?w1 ?e3) = (Inr None, ?w2 ?e3)"
    and c3: "postMetadata ?e3 ?u ?s ?d3 (?w2 ?e3) = (Inr (Some ?err), ?w3 ?e3)"
    by (simp_all add: mock_run)
  have d1: "postMetadata ?e4 ?u ?s ?d1 w0 = (Inr None, ?w1 ?e4)"
    and d2: "postMetadata ?e4 ?u ?s ?d2 (?w1 ?e4) = (Inr None, ?w2 ?e4)"
    and d3: "postMetadata ?e4 ?u ?s ?d3 (?w2 ?e4) = (Inr None, ?w3 ?e4)"
    and d4: "postMetadata ?e4 ?u ?s ?d4 (?w3 ?e4) = (Inr (Some ?err), ?w4 ?e4)"
    by (simp_all add: mock_run)
  have e1: "postMetadata ?e5 ?u ?s ?d1 w0 = (Inr None, ?w1 ?e5)"
    and e2: "postMetadata ?e5 ?u ?s ?d2 (?w1 ?e5) = (Inr None, ?w2 ?e5)"
    and e3: "postMetadata ?e5 ?u ?s ?d3 (?w2 ?e5) = (Inr None, ?w3 ?e5)"
    and e4: "postMetadata ?e5 ?u ?s ?d4 (?w3 ?e5) = (Inr None, ?w4 ?e5)"
    and e5: "postMetadata ?e5 ?u ?s ?d5 (?w4 ?e5) = (Inr (Some ?err), ?w5 ?e5)"
    by (simp_all add: mock_run)
  note T = ApplyHasuraMetadata_four_critical_then_best_effort
  have r1: "ApplyHasuraMetadata ?e1 ?u ?s w0 =
              (Inr (Some (''problem adding metadata for the buckets table: '' @ ?err)), ?w1 ?e1)"
    using T [of ?e1 ?u ?s w0 ?err "?w1 ?e1"] a1 by blast
  have r2: "ApplyHasuraMetadata ?e2 ?u ?s w0 =
              (Inr (Some (''problem adding metadata for the files table: '' @ ?err)), ?w2 ?e2)"
    using T [of ?e2 ?u ?s w0 ?err "?w1 ?e2" "?w2 ?e2"] b1 b2 by blast
  have r3: "ApplyHasuraMetadata ?e3 ?u ?s w0 =
              (Inr (Some (''problem creaiing object relationship for buckets: '' @ ?err)),
               ?w3 ?e3)"
    using T [of ?e3 ?u ?s w0 ?err "?w1 ?e3" "?w2 ?e3" "?w3 ?e3"] c1 c2 c3 by blast
  have r4: "ApplyHasuraMetadata ?e4 ?u ?s w0 =
              (Inr (Some (''problem creating array relationships: '' @ ?err)), ?w4 ?e4)"
    using T [of ?e4 ?u ?s w0 ?err "?w1 ?e4" "?w2 ?e4" "?w3 ?e4" "?w4 ?e4"] d1 d2 d3 d4
    by blast
  have r5: "ApplyHasuraMetadata ?e5 ?u ?s w0 =
              (Inr None,
               (?w5 ?e5)\<lparr>entries := entries (?w5 ?e5) @
                 [(WarnLevel, ''problem creating object relationship for users: '' @ ?err)]\<rparr>)"
    using T [of ?e5 ?u ?s w0 ?err "?w1 ?e5" "?w2 ?e5" "?w3 ?e5" "?w4 ?e5" "?w5 ?e5"]
      e1 e2 e3 e4 e5
    by blast
  show ?thesis
    unfolding r1 r2 r3 r4 r5 by (simp add: entries_sent w0_def)
qed

text \<open>
  Claim C3. When the call for the buckets table returns nil and the call for the files
  table returns an error, \<^verbatim>\<open>ApplyHasuraMetadata\<close> returns an error whose message contains
  \<^verbatim>\<open>files table\<close>, and the requests issued are exactly those two: no relationship is
  submitted, and nothing is logged.
\<close>

theorem files_track_failure_aborts:
  assumes "postMetadata env url s (OfTrackTable bucketsTable) w = (Inr None, w1)"
    and "postMetadata env url s (OfTrackTable filesTable) w1 = (Inr (Some err), w2)"
  shows "ApplyHasuraMetadata env url s w =
           (Inr (Some (''problem adding metadata for the files table: '' @ err)), w2) \<and>
         sublist ''files table'' (''problem adding metadata for the files table: '' @ err) \<and>
         requests w2 = requests w @ [issued env url s (OfTrackTable bucketsTable),
                                     issued env url s (OfTrackTable filesTable)] \<and>
         entries w2 = entries w"
proof -
  have c: "NewRequest_error env (url @ ''/metadata'') = None"
    and w1: "w1 = sent (issued env url s (OfTrackTable bucketsTable)) w"
    using postMetadata_nil_sent [OF assms(1)] by simp_all
  have "snd (postMetadata env url s (OfTrackTable filesTable) w1) =
          sent (issued env url s (OfTrackTable filesTable)) w1"
    using c by (rule postMetadata_constructed_sent)
  then have w2: "w2 = sent (issued env url s (OfTrackTable filesTable)) w1"
    using assms(2) by simp
  have "sublist ''files table'' (''problem adding metadata for the files table: '' @ err)"
    using sublist_appendI [of "''files table''" "''problem adding metadata for the ''" "'': '' @ err"]
    by simp
  then show ?thesis
    using ApplyHasuraMetadata_files_failed [OF assms] w1 w2
    by (simp add: requests_sent entries_sent)
qed

text \<open>
  The endpoint answers the second request with status 500 and a code outside the
  idempotency set.
\<close>

theorem files_track_failure_aborts_witness:
  "ApplyHasuraMetadata (mock [ok, status 500 rejection_body]) ''http://hasura:8080/v1''
     ''secret'' w0 =
     (Inr (Some (''problem adding metadata for the files table: '' @
                 ''status_code: 500\<newline>response: '' @ rejection_body)),
      \<lparr>requests =
         [issued (mock [ok, status 500 rejection_body]) ''http://hasura:8080/v1'' ''secret''
            (OfTrackTable bucketsTable),
          issued (mock [ok, status 500 rejection_body]) ''http://hasura:8080/v1'' ''secret''
            (OfTrackTable filesTable)],
       entries = []\<rparr>) \<and>
   sublist ''files table''
     (''problem adding metadata for the files table: '' @
      ''status_code: 500\<newline>response: '' @ rejection_body)"
proof -
  let ?env = "mock [ok, status 500 rejection_body]"
  let ?u = "''http://hasura:8080/v1''" and ?s = "''secret''"
  let ?w1 = "sent (issued ?env ?u ?s (OfTrackTable bucketsTable)) w0"
  let ?w2 = "sent (issued ?env ?u ?s (OfTrackTable filesTable)) ?w1"
  have h1: "postMetadata ?env ?u ?s (OfTrackTable bucketsTable) w0 = (Inr None, ?w1)"
    by (simp add: mock_run)
  have h2: "postMetadata ?env ?u ?s (OfTrackTable filesTable) ?w1 =
              (Inr (Some (''status_code: 500\<newline>response: '' @ rejection_body)), ?w2)"
    by (simp add: mock_run)
  have w2: "?w2 = \<lparr>requests = [issued ?env ?u ?s (OfTrackTable bucketsTable),
                               issued ?env ?u ?s (OfTrackTable filesTable)],
                   entries = []\<rparr>"
    by (simp add: sent_def w0_def)
  show ?thesis
    using files_track_failure_aborts [OF h1 h2] unfolding w2 by blast
qed

text \<open>
  Claim C4. When the endpoint answers the first four requests with status 200 and only
  the request for the relationship to the users fails, \<^verbatim>\<open>ApplyHasuraMetadata\<close> is meant to
  return nil and to give the logger exactly one entry, at warning level, about the users.
  It does not when the fifth response has status 500 and the body \<^verbatim>\<open>null\<close>: the fifth call
  of \<^verbatim>\<open>postMetadata\<close> panics on line 55, the panic ends \<^verbatim>\<open>ApplyHasuraMetadata\<close>, and the
  logger has received nothing. All five requests have been sent.
\<close>

theorem user_relationship_null_body_panics:
  "ApplyHasuraMetadata (mock [ok, ok, ok, ok, status 500 ''null'']) ''http://hasura:8080/v1''
     ''secret'' w0 =
   (Inl NilPointerDereference,
    \<lparr>requests =
       map (issued (mock [ok, ok, ok, ok, status 500 ''null'']) ''http://hasura:8080/v1''
              ''secret'')
         [OfTrackTable bucketsTable,
          OfTrackTable filesTable,
          OfCreateObjectRelationship objRelationshipBuckets,
          OfCreateArrayRelationship arrRelationship,
          OfCreateObjectRelationship objRelationshipUser],
     entries = []\<rparr>)"
  by (simp add: ApplyHasuraMetadata_def mock_run) (simp add: sent_def w0_def)

text \<open>
  For every other failure of the fifth request the sequence does what the claim says. When
  the endpoint answers the first four requests with status 200 and the fifth with a status
  other than 200 whose body the decoder rejects, or decodes to a struct with a code
  outside the idempotency set, \<^verbatim>\<open>ApplyHasuraMetadata\<close> returns nil, has sent the five
  requests, and the logger has one new entry, at warning level, that starts with
  \<^verbatim>\<open>problem creating object relationship for users\<close>. The run after it answers the fifth
  request with status 500 and an HTML page.
\<close>

lemma ApplyHasuraMetadata_user_relationship_rejected:
  assumes c: "NewRequest_error env (url @ ''/metadata'') = None"
    and r1: "client_Do env (requests w)
               (fst (issued env url s (OfTrackTable bucketsTable)))
               (snd (issued env url s (OfTrackTable bucketsTable))) = Inr ra"
      "StatusCode ra = 200"
    and r2: "client_Do env (requests w @ [issued env url s (OfTrackTable bucketsTable)])
               (fst (issued env url s (OfTrackTable filesTable)))
               (snd (issued env url s (OfTrackTable filesTable))) = Inr rb"
      "StatusCode rb = 200"
    and r3: "client_Do env
               (requests w @ [issued env url s (OfTrackTable bucketsTable),
                              issued env url s (OfTrackTable filesTable)])
               (fst (issued env url s (OfCreateObjectRelationship objRelationshipBuckets)))
               (snd (issued env url s (OfCreateObjectRelationship objRelationshipBuckets))) =
             Inr rc"
      "StatusCode rc = 200"
    and r4: "client_Do env
               (requests w @ [issued env url s (OfTrackTable bucketsTable),
                              issued env url s (OfTrackTable filesTable),
                              issued env url s (OfCreateObjectRelationship objRelationshipBuckets)])
               (fst (issued env url s (OfCreateArrayRelationship arrRelationship)))
               (snd (issued env url s (OfCreateArrayRelationship arrRelationship))) = Inr rd"
      "StatusCode rd = 200"
    and r5: "client_Do env
               (requests w @ [issued env url s (OfTrackTable bucketsTable),
                              issued env url s (OfTrackTable filesTable),
                              issued env url s (OfCreateObjectRelationship objRelationshipBuckets),
                              issued env url s (OfCreateArrayRelationship arrRelationship)])
               (fst (issued env url s (OfCreateObjectRelationship objRelationshipUser)))
               (snd (issued env url s (OfCreateObjectRelationship objRelationshipUser))) = Inr re"
      "StatusCode re \<noteq> 200"
      "json_Unmarshal env (response.Body re) \<noteq> NilPointer"
      "\<not> accepted env re"
  shows "ApplyHasuraMetadata env url s w =
           (Inr None,
            w\<lparr>requests := requests w @
                 map (issued env url s)
                   [OfTrackTable bucketsTable,
                    OfTrackTable filesTable,
                    OfCreateObjectRelationship objRelationshipBuckets,
                    OfCreateArrayRelationship arrRelationship,
                    OfCreateObjectRelationship objRelationshipUser],
              entries := entries w @
                 [(WarnLevel,
                   ''problem creating object relationship for users: '' @
                   ''status_code: '' @ fmt_d (StatusCode re) @
                   ''\<newline>response: '' @ response.Body re)]\<rparr>)"
proof -
  let ?w1 = "sent (issued env url s (OfTrackTable bucketsTable)) w"
  let ?w2 = "sent (issued env url s (OfTrackTable filesTable)) ?w1"
  let ?w3 = "sent (issued env url s (OfCreateObjectRelationship objRelationshipBuckets)) ?w2"
  let ?w4 = "sent (issued env url s (OfCreateArrayRelationship arrRelationship)) ?w3"
  let ?w5 = "sent (issued env url s (OfCreateObjectRelationship objRelationshipUser)) ?w4"
  have a: "accepted env ra" "accepted env rb" "accepted env rc" "accepted env rd"
    using r1(2) r2(2) r3(2) r4(2) by (simp_all add: accepted_def)
  have p1: "postMetadata env url s (OfTrackTable bucketsTable) w = (Inr None, ?w1)"
    using c r1(1) a(1) by (rule postMetadata_accepted)
  have p2: "postMetadata env url s (OfTrackTable filesTable) ?w1 = (Inr None, ?w2)"
    using c r2(1) a(2) by (intro postMetadata_accepted [where resp = rb]) (simp_all add: requests_sent)
  have p3: "postMetadata env url s (OfCreateObjectRelationship objRelationshipBuckets) ?w2 =
              (Inr None, ?w3)"
    using c r3(1) a(3) by (intro postMetadata_accepted [where resp = rc]) (simp_all add: requests_sent)
  have p4: "postMetadata env url s (OfCreateArrayRelationship arrRelationship) ?w3 =
              (Inr None, ?w4)"
    using c r4(1) a(4) by (intro postMetadata_accepted [where resp = rd]) (simp_all add: requests_sent)
  have p5: "postMetadata env url s (OfCreateObjectRelationship objRelationshipUser) ?w4 =
              (Inr (Some (''status_code: '' @ fmt_d (StatusCode re) @
                          ''\<newline>response: '' @ response.Body re)), ?w5)"
    using c r5 by (intro postMetadata_rejected [where resp = re]) (simp_all add: requests_sent)
  show ?thesis
    using ApplyHasuraMetadata_objRelationshipUser_failed [OF p1 p2 p3 p4 p5]
    by (simp add: logger_Warnf_def sent_def)
qed


lemma ApplyHasuraMetadata_user_relationship_rejected_run:
  "ApplyHasuraMetadata (mock [ok, ok, ok, ok, status 500 gateway_body])
     ''http://hasura:8080/v1'' ''secret'' w0 =
   (Inr None,
    \<lparr>requests =
       map (issued (mock [ok, ok, ok, ok, status 500 gateway_body]) ''http://hasura:8080/v1''
              ''secret'')
         [OfTrackTable bucketsTable,
          OfTrackTable filesTable,
          OfCreateObjectRelationship objRelationshipBuckets,
          OfCreateArrayRelationship arrRelationship,
          OfCreateObjectRelationship objRelationshipUser],
     entries =
       [(WarnLevel,
         ''problem creating object relationship for users: '' @
         ''status_code: 500\<newline>response: '' @ gateway_body)]\<rparr>)"
proof -
  let ?env = "mock [ok, ok, ok, ok, status 500 gateway_body]"
  let ?ok = "\<lparr>StatusCode = 200, response.Body = []\<rparr>"
  let ?bad = "\<lparr>StatusCode = 500, response.Body = gateway_body\<rparr>"
  have c: "NewRequest_error ?env (''http://hasura:8080/v1'' @ ''/metadata'') = None"
    by (simp add: mock_NewRequest_error)
  have u: "json_Unmarshal ?env (response.Body ?bad) \<noteq> NilPointer"
    "\<not> accepted ?env ?bad"
    by (simp_all add: accepted_def mock_json_Unmarshal unmarshal_samples_gateway)
  show ?thesis
    using ApplyHasuraMetadata_user_relationship_rejected [where env = ?env
        and url = "''http://hasura:8080/v1''" and s = "''secret''" and w = w0 and ra = ?ok
        and rb = ?ok and rc = ?ok and rd = ?ok and re = ?bad, OF c] u
    by (simp add: mock_client_Do w0_def ok_def status_def fmt_d_500)
qed

end
